theory Spec2Isabelle
  imports Main "HOL-Library.Sublist"
begin

section \<open>The Go library functions used by package xdg\<close>

text \<open>
  Go strings are byte sequences: a \<^typ>\<open>string\<close> here. The package uses four functions of
  the standard library, modelled after their documentation.

  \<^verbatim>\<open>path.IsAbs(p)\<close> is \<^verbatim>\<open>len(p) > 0 && p[0] == '/'\<close>.
\<close>

definition IsAbs :: "string \<Rightarrow> bool" where
  "IsAbs p = (case p of [] \<Rightarrow> False | c # _ \<Rightarrow> c = CHR ''/'')"

text \<open>\<^verbatim>\<open>strings.Contains(s, substr)\<close>: \<^verbatim>\<open>substr\<close> occurs somewhere within \<^verbatim>\<open>s\<close>.\<close>

fun Contains :: "string \<Rightarrow> string \<Rightarrow> bool" where
  "Contains [] substr = (substr = [])"
| "Contains (c # cs) substr = (prefix substr (c # cs) \<or> Contains cs substr)"

text \<open>
  \<^verbatim>\<open>strings.Replace(s, old, new, -1)\<close> replaces every non-overlapping occurrence of
  \<^verbatim>\<open>old\<close>, scanning from the left. The package calls it with \<^verbatim>\<open>old = "$HOME"\<close> only;
  for an empty \<^verbatim>\<open>old\<close> Go inserts \<^verbatim>\<open>new\<close> in front of every character and at the end.
\<close>

fun ReplaceAll :: "string \<Rightarrow> string \<Rightarrow> string \<Rightarrow> string" where
  "ReplaceAll [] old new = (if old = [] then new else [])"
| "ReplaceAll (c # cs) old new =
     (if old = [] then new @ c # ReplaceAll cs old new
      else if prefix old (c # cs) then new @ ReplaceAll (drop (length old) (c # cs)) old new
      else c # ReplaceAll cs old new)"

text \<open>
  \<^verbatim>\<open>strings.Split(s, sep)\<close> for a non-empty separator: the substrings between the
  occurrences of \<^verbatim>\<open>sep\<close>, the empty ones included; a string without the separator
  (the empty string too) gives the one-element list holding it. The package calls it
  with \<^verbatim>\<open>sep = ":"\<close> only; an empty separator is left to behave like one that never occurs.
\<close>

fun Split :: "string \<Rightarrow> string \<Rightarrow> string list" where
  "Split [] sep = [[]]"
| "Split (c # cs) sep =
     (if sep \<noteq> [] \<and> prefix sep (c # cs) then [] # Split (drop (length sep) (c # cs)) sep
      else (case Split cs sep of [] \<Rightarrow> [[c]] | x # xs \<Rightarrow> (c # x) # xs))"

text \<open>\<^verbatim>\<open>os.Getenv(key)\<close>: the value of the variable, the empty string when it is unset.\<close>

type_synonym environ = "string \<rightharpoonup> string"

definition Getenv :: "environ \<Rightarrow> string \<Rightarrow> string" where
  "Getenv E key = (case E key of None \<Rightarrow> [] | Some v \<Rightarrow> v)"

section \<open>Errors\<close>

text \<open>
  \<^verbatim>\<open>errors.New(text)\<close> returns a pointer to a new object carrying the text, and \<^verbatim>\<open>==\<close>
  on two such errors compares the pointers. An error value is therefore its address
  together with the text found there; \<^verbatim>\<open>nil\<close> is \<open>None\<close> of \<^typ>\<open>'a option\<close>.
\<close>

datatype error = ErrorString (ptr: nat) (msg: string)

text \<open>The two package-level errors are allocated before \<^verbatim>\<open>init\<close> runs.\<close>

definition ErrHomeInvalid :: error where
  "ErrHomeInvalid = ErrorString 0 ''environment variable HOME is invalid or not set''"

definition Skip :: error where
  "Skip = ErrorString 1 ''skip the rest of the files to be merged''"

section \<open>The package variables and their initialisation\<close>

record state =
  home :: string
  ConfigHome :: string
  DataHome :: string
  CacheHome :: string
  RuntimeDir :: string
  ConfigDirs :: "string list"
  DataDirs :: "string list"
  Errors :: "error list"
  nextptr :: nat

text \<open>
  The state of the package before \<^verbatim>\<open>init\<close>: every variable holds the zero value of its
  type, and the next free address lies behind the two package-level errors.
\<close>

definition state0 :: state where
  "state0 = \<lparr> home = [], ConfigHome = [], DataHome = [], CacheHome = [], RuntimeDir = [],
     ConfigDirs = [], DataDirs = [], Errors = [], nextptr = 2 \<rparr>"

text \<open>\<^verbatim>\<open>Errors = append(Errors, errors.New(text))\<close>: a fresh error at the end of the log.\<close>

definition append_new_error :: "string \<Rightarrow> state \<Rightarrow> state" where
  "append_new_error text s =
     s\<lparr>Errors := Errors s @ [ErrorString (nextptr s) text], nextptr := Suc (nextptr s)\<rparr>"

text \<open>
  \<^verbatim>\<open>func xdgPath(env, def string) string\<close>: the value of one scalar variable, with the
  state after the call.
\<close>

definition xdgPath :: "environ \<Rightarrow> string \<Rightarrow> string \<Rightarrow> state \<Rightarrow> string \<times> state" where
  "xdgPath E env def s =
     (let x = Getenv E env;
          x = (if x = [] then
                 (if Contains def ''$HOME'' then
                    (if home s \<noteq> [] then ReplaceAll def ''$HOME'' (home s) else x)
                  else def)
               else x)
      in if IsAbs x then (x, s)
         else ([], append_new_error (''no value set for '' @ env) s))"

text \<open>
  \<^verbatim>\<open>func xdgPath(env, def string) []string\<close>, the second function of that name in the
  file, which \<^verbatim>\<open>init\<close> calls as \<^verbatim>\<open>xdgPaths\<close>. Its loop over the segments first.
\<close>

fun xdgPaths_loop :: "string \<Rightarrow> string list \<Rightarrow> string list \<Rightarrow> state \<Rightarrow> string list \<times> state" where
  "xdgPaths_loop env [] fs s = (fs, s)"
| "xdgPaths_loop env (x # xs) fs s =
     (if IsAbs x then xdgPaths_loop env xs (fs @ [x]) s
      else xdgPaths_loop env xs fs
             (append_new_error (''ignoring '' @ env @ '' path element: '' @ x) s))"

definition xdgPaths :: "environ \<Rightarrow> string \<Rightarrow> string \<Rightarrow> state \<Rightarrow> string list \<times> state" where
  "xdgPaths E env def s =
     (let xs = Getenv E env;
          xs = (if xs = [] then def else xs)
      in xdgPaths_loop env (Split xs '':'') [] s)"

text \<open>\<^verbatim>\<open>func init()\<close>, statement by statement.\<close>

definition init_home :: "environ \<Rightarrow> state \<Rightarrow> state" where
  "init_home E s =
     (let s = s\<lparr>home := Getenv E ''HOME''\<rparr>
      in if IsAbs (home s) then s\<lparr>home := [], Errors := Errors s @ [ErrHomeInvalid]\<rparr> else s)"

definition init :: "environ \<Rightarrow> state \<Rightarrow> state" where
  "init E s =
     (let s = init_home E s;
          (v, s) = xdgPath E ''XDG_CONFIG_HOME'' ''$HOME/.config'' s; s = s\<lparr>ConfigHome := v\<rparr>;
          (v, s) = xdgPath E ''XDG_DATA_HOME'' ''$HOME/.config'' s; s = s\<lparr>DataHome := v\<rparr>;
          (v, s) = xdgPath E ''XDG_CACHE_HOME'' ''$HOME/.config'' s; s = s\<lparr>CacheHome := v\<rparr>;
          (v, s) = xdgPath E ''XDG_RUNTIME_DIR'' [] s; s = s\<lparr>RuntimeDir := v\<rparr>;
          (vs, s) = xdgPaths E ''XDG_CONFIG_DIRS'' ''/etc/xdg'' s; s = s\<lparr>ConfigDirs := vs\<rparr>;
          (vs, s) = xdgPaths E ''XDG_DATA_DIRS'' ''/usr/local/share:/usr/share'' s;
          s = s\<lparr>DataDirs := vs\<rparr>
      in s)"

section \<open>Finding files\<close>

text \<open>
  The exported \<^verbatim>\<open>Find*\<close> functions of the source have a body that returns the zero
  value of the result type, whatever the suffix: \<^verbatim>\<open>nil\<close> for the lists, \<^verbatim>\<open>""\<close> for the
  single paths.
\<close>

definition FindConfigFiles :: "string \<Rightarrow> string list" where
  "FindConfigFiles p = []"

definition FindDataFiles :: "string \<Rightarrow> string list" where
  "FindDataFiles p = []"

definition FindConfigFile :: "string \<Rightarrow> string" where
  "FindConfigFile p = []"

definition FindDataFile :: "string \<Rightarrow> string" where
  "FindDataFile p = []"

definition FindCacheFile :: "string \<Rightarrow> string" where
  "FindCacheFile p = []"

definition FindRuntimeFile :: "string \<Rightarrow> string" where
  "FindRuntimeFile p = []"

text \<open>
  A file system, as far as looking files up goes: the paths at which a regular readable
  file exists.
\<close>

type_synonym filesystem = "string \<Rightarrow> bool"

text \<open>
  \<^verbatim>\<open>merge\<close> and \<^verbatim>\<open>mergeR\<close> call \<^verbatim>\<open>find\<close> and \<^verbatim>\<open>findR\<close> with the suffix and the paths
  \<^verbatim>\<open>home, dirs...\<close>; no source file defines these two functions. They are modelled from
  sections 4.3 and 4.4 of the specification, under the names the second source file calls
  them by, \<^verbatim>\<open>findFiles\<close> and \<^verbatim>\<open>findFilesReverse\<close>, and take the file system they look into
  as an argument.
\<close>

text \<open>
  Modelled from the spec: the probe of one candidate root, missing with \<^verbatim>\<open>find\<close>. For a
  root the path \<^verbatim>\<open>root/suffix\<close> is formed, and it belongs to the result iff the file
  system reports that it exists as a regular readable entry.
\<close>

definition probe :: "filesystem \<Rightarrow> string \<Rightarrow> string \<Rightarrow> string list" where
  "probe fs p root = (if fs (root @ ''/'' @ p) then [root @ ''/'' @ p] else [])"

text \<open>
  Modelled from the spec: \<^verbatim>\<open>find\<close> (\<^verbatim>\<open>findFiles\<close>), missing from the source. The
  candidate roots are the home directory, left out when it is empty, followed by the
  directories of the list; the results keep the order of the roots.
\<close>

fun findFiles :: "filesystem \<Rightarrow> string \<Rightarrow> string list \<Rightarrow> string list" where
  "findFiles fs p [] = []"
| "findFiles fs p (hm # dirs) =
     (if hm = [] then [] else probe fs p hm) @ concat (map (probe fs p) dirs)"

text \<open>
  Modelled from the spec: \<^verbatim>\<open>findR\<close> (\<^verbatim>\<open>findFilesReverse\<close>), missing from the source. The
  backward merge goes through the directories of the list in reverse, then the home
  directory last.
\<close>

fun findFilesReverse :: "filesystem \<Rightarrow> string \<Rightarrow> string list \<Rightarrow> string list" where
  "findFilesReverse fs p [] = []"
| "findFilesReverse fs p (hm # dirs) =
     concat (map (probe fs p) (rev dirs)) @ (if hm = [] then [] else probe fs p hm)"

section \<open>Merging files\<close>

text \<open>
  \<^verbatim>\<open>type MergeFunc func(string) error\<close>: a closure, which may change what it has
  captured. It is a function of the path and of that captured state \<^typ>\<open>'s\<close>, returning
  the error (\<open>None\<close> for \<^verbatim>\<open>nil\<close>) and the new state.
\<close>

type_synonym 's MergeFunc = "string \<Rightarrow> 's \<Rightarrow> error option \<times> 's"

text \<open>
  The loop of \<^verbatim>\<open>merge\<close> and \<^verbatim>\<open>mergeR\<close>, the same in both:
  \<^verbatim>\<open>for _, s := range files { if err = f(s); err != nil { break } }\<close>.
  It yields the value of \<^verbatim>\<open>err\<close> behind the loop.
\<close>

fun merge_loop :: "'s MergeFunc \<Rightarrow> string list \<Rightarrow> 's \<Rightarrow> error option \<times> 's" where
  "merge_loop f [] st = (None, st)"
| "merge_loop f (c # cs) st =
     (case f c st of
        (None, st') \<Rightarrow> merge_loop f cs st'
      | (Some e, st') \<Rightarrow> (Some e, st'))"

text \<open>
  \<^verbatim>\<open>if err == Skip { return nil }; return err\<close>: the comparison is one of pointers,
  and \<^verbatim>\<open>nil\<close> is not \<^verbatim>\<open>Skip\<close>.
\<close>

definition merge_return :: "error option \<Rightarrow> error option" where
  "merge_return err =
     (case err of None \<Rightarrow> None
      | Some e \<Rightarrow> if ptr e = ptr Skip then None else Some e)"

text \<open>
  \<^verbatim>\<open>merge\<close> and \<^verbatim>\<open>mergeR\<close>. The function that finds the files is not in the source
  and is a parameter here: \<open>fnd\<close> stands for \<^verbatim>\<open>find\<close> in \<^verbatim>\<open>merge\<close> and for \<^verbatim>\<open>findR\<close>
  in \<^verbatim>\<open>mergeR\<close>.
\<close>

definition merge ::
  "(string \<Rightarrow> string list \<Rightarrow> string list) \<Rightarrow> string \<Rightarrow> 's MergeFunc \<Rightarrow> string list \<Rightarrow> 's
     \<Rightarrow> error option \<times> 's" where
  "merge fnd p f paths st =
     (case merge_loop f (fnd p paths) st of (err, st') \<Rightarrow> (merge_return err, st'))"

definition mergeR ::
  "(string \<Rightarrow> string list \<Rightarrow> string list) \<Rightarrow> string \<Rightarrow> 's MergeFunc \<Rightarrow> string list \<Rightarrow> 's
     \<Rightarrow> error option \<times> 's" where
  "mergeR fndR p f paths st =
     (case merge_loop f (fndR p paths) st of (err, st') \<Rightarrow> (merge_return err, st'))"

text \<open>The exported functions pass the home directory followed by the directory list.\<close>

definition MergeDataFiles ::
  "(string \<Rightarrow> string list \<Rightarrow> string list) \<Rightarrow> state \<Rightarrow> string \<Rightarrow> 's MergeFunc \<Rightarrow> 's
     \<Rightarrow> error option \<times> 's" where
  "MergeDataFiles fnd s p f = merge fnd p f (DataHome s # DataDirs s)"

definition MergeDataFilesR ::
  "(string \<Rightarrow> string list \<Rightarrow> string list) \<Rightarrow> state \<Rightarrow> string \<Rightarrow> 's MergeFunc \<Rightarrow> 's
     \<Rightarrow> error option \<times> 's" where
  "MergeDataFilesR fndR s p f = mergeR fndR p f (DataHome s # DataDirs s)"

definition MergeConfigFiles ::
  "(string \<Rightarrow> string list \<Rightarrow> string list) \<Rightarrow> state \<Rightarrow> string \<Rightarrow> 's MergeFunc \<Rightarrow> 's
     \<Rightarrow> error option \<times> 's" where
  "MergeConfigFiles fnd s p f = merge fnd p f (ConfigHome s # ConfigDirs s)"

definition MergeConfigFilesR ::
  "(string \<Rightarrow> string list \<Rightarrow> string list) \<Rightarrow> state \<Rightarrow> string \<Rightarrow> 's MergeFunc \<Rightarrow> 's
     \<Rightarrow> error option \<times> 's" where
  "MergeConfigFilesR fndR s p f = mergeR fndR p f (ConfigHome s # ConfigDirs s)"

text \<open>
  To observe which files a callback is given, it is wrapped into one that also records
  each path it is called with, in the order of the calls.
\<close>

definition traced :: "'s MergeFunc \<Rightarrow> ('s \<times> string list) MergeFunc" where
  "traced f c = (\<lambda>(st, tr). case f c st of (r, st') \<Rightarrow> (r, (st', tr @ [c])))"

text \<open>\<^verbatim>\<open>strings.Join(elems, sep)\<close>, to write down a colon-delimited value from its segments.\<close>

fun Join :: "string list \<Rightarrow> string \<Rightarrow> string" where
  "Join [] sep = []"
| "Join [x] sep = x"
| "Join (x # y # ys) sep = x @ sep @ Join (y # ys) sep"

section \<open>Splitting a colon-delimited value\<close>

lemma Split_no_sep: "d \<notin> set x \<Longrightarrow> Split x [d] = [x]"
  by (induction x) auto

lemma Split_append_sep: "d \<notin> set x \<Longrightarrow> Split (x @ d # rest) [d] = x # Split rest [d]"
  by (induction x) auto

lemma Split_Join:
  "segs \<noteq> [] \<Longrightarrow> \<forall>x\<in>set segs. d \<notin> set x \<Longrightarrow> Split (Join segs [d]) [d] = segs"
proof (induction segs "[d]" rule: Join.induct)
  case 1
  then show ?case by simp
next
  case (2 x)
  then show ?case by (simp add: Split_no_sep del: Split.simps)
next
  case (3 x y ys)
  then show ?case by (simp add: Split_append_sep del: Split.simps)
qed

section \<open>The directory lists\<close>

lemma xdgPaths_loop_fst: "fst (xdgPaths_loop env xs fs s) = fs @ filter IsAbs xs"
  by (induction env xs fs s rule: xdgPaths_loop.induct) auto

lemma xdgPaths_loop_msgs:
  "map msg (Errors (snd (xdgPaths_loop env xs fs s))) =
     map msg (Errors s) @
     map (\<lambda>x. ''ignoring '' @ env @ '' path element: '' @ x) (filter (\<lambda>x. \<not> IsAbs x) xs)"
  by (induction env xs fs s rule: xdgPaths_loop.induct) (auto simp: append_new_error_def)

lemma xdgPaths_loop_frame:
  "home (snd (xdgPaths_loop env xs fs s)) = home s"
  "ConfigHome (snd (xdgPaths_loop env xs fs s)) = ConfigHome s"
  "DataHome (snd (xdgPaths_loop env xs fs s)) = DataHome s"
  "CacheHome (snd (xdgPaths_loop env xs fs s)) = CacheHome s"
  "RuntimeDir (snd (xdgPaths_loop env xs fs s)) = RuntimeDir s"
  "ConfigDirs (snd (xdgPaths_loop env xs fs s)) = ConfigDirs s"
  "DataDirs (snd (xdgPaths_loop env xs fs s)) = DataDirs s"
  by (induction env xs fs s rule: xdgPaths_loop.induct) (auto simp: append_new_error_def)

lemma xdgPaths_loop_prefix: "prefix (Errors s) (Errors (snd (xdgPaths_loop env xs fs s)))"
proof (induction env xs fs s rule: xdgPaths_loop.induct)
  case (1 env fs s)
  then show ?case by simp
next
  case (2 env x xs fs s)
  have "prefix (Errors s)
     (Errors (append_new_error (''ignoring '' @ env @ '' path element: '' @ x) s))"
    by (simp add: append_new_error_def)
  with 2 show ?case
    by (auto intro: prefix_order.trans)
qed

lemma xdgPaths_fst:
  "fst (xdgPaths E env def s) =
     filter IsAbs (Split (if Getenv E env = [] then def else Getenv E env) '':'')"
  by (simp add: xdgPaths_def xdgPaths_loop_fst Let_def)

lemma xdgPaths_msgs:
  "map msg (Errors (snd (xdgPaths E env def s))) =
     map msg (Errors s) @
     map (\<lambda>x. ''ignoring '' @ env @ '' path element: '' @ x)
       (filter (\<lambda>x. \<not> IsAbs x) (Split (if Getenv E env = [] then def else Getenv E env) '':''))"
  by (simp add: xdgPaths_def xdgPaths_loop_msgs Let_def)

lemma xdgPaths_frame:
  "home (snd (xdgPaths E env def s)) = home s"
  "ConfigHome (snd (xdgPaths E env def s)) = ConfigHome s"
  "DataHome (snd (xdgPaths E env def s)) = DataHome s"
  "CacheHome (snd (xdgPaths E env def s)) = CacheHome s"
  "RuntimeDir (snd (xdgPaths E env def s)) = RuntimeDir s"
  "ConfigDirs (snd (xdgPaths E env def s)) = ConfigDirs s"
  "DataDirs (snd (xdgPaths E env def s)) = DataDirs s"
  by (simp_all add: xdgPaths_def xdgPaths_loop_frame Let_def)

lemma xdgPaths_prefix: "prefix (Errors s) (Errors (snd (xdgPaths E env def s)))"
  by (simp add: xdgPaths_def Let_def xdgPaths_loop_prefix)

text \<open>
  Claim C3. When a \<^verbatim>\<open>*_DIRS\<close> variable is set to a colon-delimited string, that is to
  the segments \<open>segs\<close> (none of which holds a colon) joined by colons, the list that
  \<^verbatim>\<open>xdgPaths\<close> returns consists of exactly the absolute segments in their original order,
  and the log grows by one diagnostic \<^verbatim>\<open>ignoring <VAR> path element: <segment>\<close> for each
  segment that is not absolute (a relative or an empty one), in the order of the segments:
  a dropped segment does not stop the segments behind it from being processed.
\<close>

theorem xdgPaths_keeps_absolute_segments:
  assumes "segs \<noteq> []" and "\<forall>x\<in>set segs. CHR '':'' \<notin> set x"
    and "Getenv E env = Join segs '':''" and "Join segs '':'' \<noteq> []"
  shows "fst (xdgPaths E env def s) = filter IsAbs segs \<and>
         map msg (Errors (snd (xdgPaths E env def s))) =
           map msg (Errors s) @
           map (\<lambda>x. ''ignoring '' @ env @ '' path element: '' @ x)
             (filter (\<lambda>x. \<not> IsAbs x) segs)"
  using assms Split_Join [of segs "CHR '':''"]
  by (simp add: xdgPaths_fst xdgPaths_msgs)

theorem xdgPaths_keeps_absolute_segments_witness:
  "[''/a'', ''b'', [], ''/c''] \<noteq> [] \<and>
   list_all (\<lambda>x. CHR '':'' \<notin> set x) [''/a'', ''b'', [], ''/c''] \<and>
   Getenv [''XDG_CONFIG_DIRS'' \<mapsto> ''/a:b::/c''] ''XDG_CONFIG_DIRS'' =
     Join [''/a'', ''b'', [], ''/c''] '':'' \<and>
   Join [''/a'', ''b'', [], ''/c''] '':'' \<noteq> [] \<and>
   fst (xdgPaths [''XDG_CONFIG_DIRS'' \<mapsto> ''/a:b::/c''] ''XDG_CONFIG_DIRS'' ''/etc/xdg'' state0) =
     [''/a'', ''/c''] \<and>
   map msg (Errors (snd (xdgPaths [''XDG_CONFIG_DIRS'' \<mapsto> ''/a:b::/c''] ''XDG_CONFIG_DIRS''
       ''/etc/xdg'' state0))) =
     [''ignoring XDG_CONFIG_DIRS path element: b'', ''ignoring XDG_CONFIG_DIRS path element: '']"
  using xdgPaths_keeps_absolute_segments [of "[''/a'', ''b'', [], ''/c'']"
      "[''XDG_CONFIG_DIRS'' \<mapsto> ''/a:b::/c'']" "''XDG_CONFIG_DIRS''" "''/etc/xdg''" state0]
  by (simp add: Getenv_def IsAbs_def state0_def)

section \<open>The scalar directories\<close>

lemma xdgPath_frame:
  "home (snd (xdgPath E env def s)) = home s"
  "ConfigHome (snd (xdgPath E env def s)) = ConfigHome s"
  "DataHome (snd (xdgPath E env def s)) = DataHome s"
  "CacheHome (snd (xdgPath E env def s)) = CacheHome s"
  "RuntimeDir (snd (xdgPath E env def s)) = RuntimeDir s"
  "ConfigDirs (snd (xdgPath E env def s)) = ConfigDirs s"
  "DataDirs (snd (xdgPath E env def s)) = DataDirs s"
  by (simp_all add: xdgPath_def append_new_error_def Let_def)

lemma xdgPath_msgs:
  "map msg (Errors (snd (xdgPath E env def s))) =
     map msg (Errors s) @
     (if fst (xdgPath E env def s) = [] then [''no value set for '' @ env] else [])"
  by (auto simp add: xdgPath_def append_new_error_def Let_def IsAbs_def)

lemma xdgPath_fst_home:
  "home s = home t \<Longrightarrow> fst (xdgPath E env def s) = fst (xdgPath E env def t)"
  by (simp add: xdgPath_def Let_def)

lemma xdgPath_fst_frame:
  "fst (xdgPath E env def (s\<lparr>ConfigHome := v\<rparr>)) = fst (xdgPath E env def s)"
  "fst (xdgPath E env def (s\<lparr>DataHome := v\<rparr>)) = fst (xdgPath E env def s)"
  "fst (xdgPath E env def (s\<lparr>CacheHome := v\<rparr>)) = fst (xdgPath E env def s)"
  "fst (xdgPath E env def (snd (xdgPath E env' def' s))) = fst (xdgPath E env def s)"
  by (simp_all add: xdgPath_def append_new_error_def Let_def)

lemma xdgPath_absolute:
  "fst (xdgPath E env def s) \<noteq> [] \<Longrightarrow> IsAbs (fst (xdgPath E env def s))"
  by (simp add: xdgPath_def Let_def split: if_splits)

lemma xdgPath_prefix: "prefix (Errors s) (Errors (snd (xdgPath E env def s)))"
  by (simp add: xdgPath_def append_new_error_def Let_def)

section \<open>Initialisation\<close>

lemma init_home_prefix: "prefix (Errors s) (Errors (init_home E s))"
  by (simp add: init_home_def Let_def)

lemma init_home_home:
  "home (init_home E s) = (if IsAbs (Getenv E ''HOME'') then [] else Getenv E ''HOME'')"
  by (simp add: init_home_def Let_def)

lemma init_home_msgs:
  "map msg (Errors (init_home E s)) =
     map msg (Errors s) @ (if IsAbs (Getenv E ''HOME'') then [msg ErrHomeInvalid] else [])"
  by (simp add: init_home_def Let_def)

text \<open>What \<^verbatim>\<open>init\<close> leaves in each variable.\<close>

lemma init_fields:
  "home (init E s) = (if IsAbs (Getenv E ''HOME'') then [] else Getenv E ''HOME'')"
  "ConfigHome (init E s) = fst (xdgPath E ''XDG_CONFIG_HOME'' ''$HOME/.config'' (init_home E s))"
  "DataHome (init E s) = fst (xdgPath E ''XDG_DATA_HOME'' ''$HOME/.config'' (init_home E s))"
  "CacheHome (init E s) = fst (xdgPath E ''XDG_CACHE_HOME'' ''$HOME/.config'' (init_home E s))"
  "RuntimeDir (init E s) = fst (xdgPath E ''XDG_RUNTIME_DIR'' [] (init_home E s))"
  "ConfigDirs (init E s) =
     filter IsAbs (Split (if Getenv E ''XDG_CONFIG_DIRS'' = [] then ''/etc/xdg''
                          else Getenv E ''XDG_CONFIG_DIRS'') '':'')"
  "DataDirs (init E s) =
     filter IsAbs (Split (if Getenv E ''XDG_DATA_DIRS'' = [] then ''/usr/local/share:/usr/share''
                          else Getenv E ''XDG_DATA_DIRS'') '':'')"
  unfolding init_def Let_def split_beta
  by (simp_all add: xdgPath_frame xdgPaths_frame xdgPaths_fst xdgPath_fst_frame init_home_home)

text \<open>
  The diagnostics of one run of \<^verbatim>\<open>init\<close>, in the order in which the values are resolved:
  the home directory, the four scalars, the two lists.
\<close>

lemma init_msgs:
  "map msg (Errors (init E s)) =
     map msg (Errors s) @
     (if IsAbs (Getenv E ''HOME'') then [msg ErrHomeInvalid] else []) @
     (if ConfigHome (init E s) = [] then [''no value set for XDG_CONFIG_HOME''] else []) @
     (if DataHome (init E s) = [] then [''no value set for XDG_DATA_HOME''] else []) @
     (if CacheHome (init E s) = [] then [''no value set for XDG_CACHE_HOME''] else []) @
     (if RuntimeDir (init E s) = [] then [''no value set for XDG_RUNTIME_DIR''] else []) @
     map (\<lambda>x. ''ignoring XDG_CONFIG_DIRS path element: '' @ x)
       (filter (\<lambda>x. \<not> IsAbs x)
          (Split (if Getenv E ''XDG_CONFIG_DIRS'' = [] then ''/etc/xdg''
                  else Getenv E ''XDG_CONFIG_DIRS'') '':'')) @
     map (\<lambda>x. ''ignoring XDG_DATA_DIRS path element: '' @ x)
       (filter (\<lambda>x. \<not> IsAbs x)
          (Split (if Getenv E ''XDG_DATA_DIRS'' = [] then ''/usr/local/share:/usr/share''
                  else Getenv E ''XDG_DATA_DIRS'') '':''))"
  unfolding init_fields
  unfolding init_def Let_def split_beta
  by (simp add: xdgPaths_msgs xdgPath_msgs xdgPath_fst_frame init_home_msgs)

lemma init_prefix: "prefix (Errors s) (Errors (init E s))"
  unfolding init_def Let_def split_beta
  apply simp
  apply (rule prefix_order.trans [OF _ xdgPaths_prefix])
  apply simp
  apply (rule prefix_order.trans [OF _ xdgPaths_prefix])
  apply simp
  apply (rule prefix_order.trans [OF _ xdgPath_prefix])
  apply simp
  apply (rule prefix_order.trans [OF _ xdgPath_prefix])
  apply simp
  apply (rule prefix_order.trans [OF _ xdgPath_prefix])
  apply simp
  apply (rule prefix_order.trans [OF _ xdgPath_prefix])
  apply (rule init_home_prefix)
  done

text \<open>
  The part of the absolute-path invariant that the code keeps: the four scalar
  directories, when not empty, and all elements of the two lists are absolute.
\<close>

lemma init_scalars_and_lists_absolute:
  "(ConfigHome (init E s) = [] \<or> IsAbs (ConfigHome (init E s))) \<and>
   (DataHome (init E s) = [] \<or> IsAbs (DataHome (init E s))) \<and>
   (CacheHome (init E s) = [] \<or> IsAbs (CacheHome (init E s))) \<and>
   (RuntimeDir (init E s) = [] \<or> IsAbs (RuntimeDir (init E s))) \<and>
   list_all IsAbs (ConfigDirs (init E s)) \<and> list_all IsAbs (DataDirs (init E s))"
  using xdgPath_absolute [of E _ _ "init_home E s"]
  by (auto simp add: init_fields list_all_iff)

text \<open>
  Claim C8. Resolution is a function of the environment alone: started in any two states
  \<open>s\<close> and \<open>t\<close> of the package (for instance the state before the first run and the state
  after it) on the same environment, \<^verbatim>\<open>init\<close> leaves the same home directory and the same
  six directory values, and appends to the log diagnostics with the same texts in the same
  order. The log it finds is kept as the front of the new log, and the state holds nothing
  but these values, the log and the address of the next error.
\<close>

theorem init_depends_on_environment_only:
  "home (init E s) = home (init E t) \<and>
   ConfigHome (init E s) = ConfigHome (init E t) \<and>
   DataHome (init E s) = DataHome (init E t) \<and>
   CacheHome (init E s) = CacheHome (init E t) \<and>
   RuntimeDir (init E s) = RuntimeDir (init E t) \<and>
   ConfigDirs (init E s) = ConfigDirs (init E t) \<and>
   DataDirs (init E s) = DataDirs (init E t) \<and>
   prefix (Errors s) (Errors (init E s)) \<and>
   drop (length (Errors s)) (map msg (Errors (init E s))) =
     drop (length (Errors t)) (map msg (Errors (init E t)))"
proof -
  have h: "home (init_home E s) = home (init_home E t)"
    by (simp add: init_home_home)
  note sc = xdgPath_fst_home [OF h]
  have f: "home (init E s) = home (init E t)" "ConfigHome (init E s) = ConfigHome (init E t)"
    "DataHome (init E s) = DataHome (init E t)" "CacheHome (init E s) = CacheHome (init E t)"
    "RuntimeDir (init E s) = RuntimeDir (init E t)" "ConfigDirs (init E s) = ConfigDirs (init E t)"
    "DataDirs (init E s) = DataDirs (init E t)"
    by (simp_all add: init_fields sc)
  have "drop (length (Errors s)) (map msg (Errors (init E s))) =
     drop (length (Errors t)) (map msg (Errors (init E t)))"
    by (simp add: init_msgs [of E s] init_msgs [of E t] f)
  with f init_prefix [of s E] show ?thesis by simp
qed

text \<open>
  Claim C1, evaluated on the code. With \<^verbatim>\<open>HOME=/home/u\<close> and no \<^verbatim>\<open>XDG_*\<close> variable set,
  \<^verbatim>\<open>init\<close> leaves \<^verbatim>\<open>ConfigHome\<close>, \<^verbatim>\<open>DataHome\<close> and \<^verbatim>\<open>CacheHome\<close> empty and logs that no
  value is set for them, where the claim has \<^verbatim>\<open>/home/u/.config\<close>, \<^verbatim>\<open>/home/u/.local/share\<close>
  and \<^verbatim>\<open>/home/u/.cache\<close>.
\<close>

theorem init_defaults_with_absolute_HOME:
  "ConfigHome (init [''HOME'' \<mapsto> ''/home/u''] state0) = [] \<and>
   DataHome (init [''HOME'' \<mapsto> ''/home/u''] state0) = [] \<and>
   CacheHome (init [''HOME'' \<mapsto> ''/home/u''] state0) = [] \<and>
   map msg (Errors (init [''HOME'' \<mapsto> ''/home/u''] state0)) =
     [''environment variable HOME is invalid or not set'',
      ''no value set for XDG_CONFIG_HOME'', ''no value set for XDG_DATA_HOME'',
      ''no value set for XDG_CACHE_HOME'', ''no value set for XDG_RUNTIME_DIR'']"
  by (simp add: init_def init_home_def xdgPath_def xdgPaths_def Getenv_def IsAbs_def state0_def
      append_new_error_def ErrHomeInvalid_def Let_def)

text \<open>
  The default of the data and of the cache directory is the template of the configuration
  directory: were the home directory \<^verbatim>\<open>/home/u\<close>, both calls of \<^verbatim>\<open>init\<close> would give
  \<^verbatim>\<open>/home/u/.config\<close>.
\<close>

lemma xdgPath_data_and_cache_template:
  "fst (xdgPath Map.empty ''XDG_DATA_HOME'' ''$HOME/.config'' (state0\<lparr>home := ''/home/u''\<rparr>)) =
     ''/home/u/.config'' \<and>
   fst (xdgPath Map.empty ''XDG_CACHE_HOME'' ''$HOME/.config'' (state0\<lparr>home := ''/home/u''\<rparr>)) =
     ''/home/u/.config''"
  by (simp add: xdgPath_def Getenv_def IsAbs_def state0_def Let_def)

text \<open>
  Claim C2, evaluated on the code. The test on \<^verbatim>\<open>HOME\<close> is the wrong way round: the
  absolute \<^verbatim>\<open>/home/u\<close> is rejected, the home directory left empty and \<^verbatim>\<open>ErrHomeInvalid\<close>
  logged, while the relative \<^verbatim>\<open>relative/path\<close> is taken as the home directory and
  \<^verbatim>\<open>ErrHomeInvalid\<close> is not logged.
\<close>

theorem init_rejects_absolute_HOME:
  "home (init [''HOME'' \<mapsto> ''/home/u''] state0) = [] \<and>
   ErrHomeInvalid \<in> set (Errors (init [''HOME'' \<mapsto> ''/home/u''] state0)) \<and>
   home (init [''HOME'' \<mapsto> ''relative/path''] state0) = ''relative/path'' \<and>
   ErrHomeInvalid \<notin> set (Errors (init [''HOME'' \<mapsto> ''relative/path''] state0))"
  by (simp add: init_def init_home_def xdgPath_def xdgPaths_def Getenv_def IsAbs_def state0_def
      append_new_error_def ErrHomeInvalid_def Let_def)

text \<open>
  Claim C9, evaluated on the code. With \<^verbatim>\<open>HOME=relative/path\<close> the home directory after
  \<^verbatim>\<open>init\<close> is \<^verbatim>\<open>relative/path\<close>: not empty and not absolute.
\<close>

theorem init_home_not_absolute:
  "home (init [''HOME'' \<mapsto> ''relative/path''] state0) = ''relative/path'' \<and>
   home (init [''HOME'' \<mapsto> ''relative/path''] state0) \<noteq> [] \<and>
   \<not> IsAbs (home (init [''HOME'' \<mapsto> ''relative/path''] state0))"
  by (simp add: init_fields Getenv_def IsAbs_def)

section \<open>The merge loop\<close>

text \<open>
  As long as the callback returns \<^verbatim>\<open>nil\<close>, on each file in the state its earlier calls
  have left, the loop goes on to the next file.
\<close>

lemma merge_loop_continue:
  "\<forall>i<length pre. fst (f (pre ! i) (foldl (\<lambda>t q. snd (f q t)) st (take i pre))) = None
   \<Longrightarrow> merge_loop f (pre @ cs) st = merge_loop f cs (foldl (\<lambda>t q. snd (f q t)) st pre)"
proof (induction pre arbitrary: st)
  case Nil
  then show ?case by simp
next
  case (Cons q pre)
  from Cons.prems have q: "fst (f q st) = None" by fastforce
  have "\<forall>i<length pre.
      fst (f (pre ! i) (foldl (\<lambda>t q. snd (f q t)) (snd (f q st)) (take i pre))) = None"
  proof (intro allI impI)
    fix i assume "i < length pre"
    then have "Suc i < length (q # pre)" by simp
    with Cons.prems
    have "fst (f ((q # pre) ! Suc i)
        (foldl (\<lambda>t q. snd (f q t)) st (take (Suc i) (q # pre)))) = None"
      by blast
    then show "fst (f (pre ! i) (foldl (\<lambda>t q. snd (f q t)) (snd (f q st)) (take i pre))) = None"
      by simp
  qed
  from Cons.IH [OF this] q show ?case
    by (cases "f q st") simp
qed

lemma merge_loop_stop:
  assumes "\<forall>i<length pre. fst (f (pre ! i) (foldl (\<lambda>t q. snd (f q t)) st (take i pre))) = None"
    and "f c (foldl (\<lambda>t q. snd (f q t)) st pre) = (Some e, st')"
  shows "merge_loop f (pre @ c # post) st = (Some e, st')"
  using merge_loop_continue [OF assms(1), of "c # post"] assms(2) by simp

lemma merge_loop_all:
  assumes "\<forall>i<length cs. fst (f (cs ! i) (foldl (\<lambda>t q. snd (f q t)) st (take i cs))) = None"
  shows "merge_loop f cs st = (None, foldl (\<lambda>t q. snd (f q t)) st cs)"
  using merge_loop_continue [OF assms, of "[]"] by simp

lemma traced_apply: "traced f c (st, tr) = (fst (f c st), (snd (f c st), tr @ [c]))"
  by (simp add: traced_def split: prod.splits)

lemma traced_foldl:
  "foldl (\<lambda>t q. snd (traced f q t)) (st, tr) cs = (foldl (\<lambda>t q. snd (f q t)) st cs, tr @ cs)"
  by (induction cs arbitrary: st tr) (simp_all add: traced_apply)

lemma traced_continue:
  "\<forall>i<length pre. fst (f (pre ! i) (foldl (\<lambda>t q. snd (f q t)) st (take i pre))) = None
   \<Longrightarrow> \<forall>i<length pre. fst (traced f (pre ! i)
           (foldl (\<lambda>t q. snd (traced f q t)) (st, tr) (take i pre))) = None"
  by (simp add: traced_foldl traced_apply)

lemma traced_merge_loop_stop:
  assumes "\<forall>i<length pre. fst (f (pre ! i) (foldl (\<lambda>t q. snd (f q t)) st (take i pre))) = None"
    and "f c (foldl (\<lambda>t q. snd (f q t)) st pre) = (Some e, st')"
  shows "merge_loop (traced f) (pre @ c # post) (st, tr) = (Some e, (st', tr @ pre @ [c]))"
proof (rule merge_loop_stop)
  show "\<forall>i<length pre. fst (traced f (pre ! i)
           (foldl (\<lambda>t q. snd (traced f q t)) (st, tr) (take i pre))) = None"
    using assms(1) by (rule traced_continue)
  show "traced f c (foldl (\<lambda>t q. snd (traced f q t)) (st, tr) pre) = (Some e, st', tr @ pre @ [c])"
    using assms(2) by (simp add: traced_foldl traced_apply)
qed

lemma traced_merge_loop_all:
  assumes "\<forall>i<length cs. fst (f (cs ! i) (foldl (\<lambda>t q. snd (f q t)) st (take i cs))) = None"
  shows "merge_loop (traced f) cs (st, tr) = (None, (foldl (\<lambda>t q. snd (f q t)) st cs, tr @ cs))"
  using merge_loop_all [OF traced_continue [OF assms], of tr] by (simp add: traced_foldl)

text \<open>
  Claim C6. Let the files found be \<open>pre @ c # post\<close>, let the callback return \<^verbatim>\<open>nil\<close> on
  every file of \<open>pre\<close> (each time in the state that its earlier calls have left) and the
  stop sentinel \<^verbatim>\<open>Skip\<close> on \<open>c\<close>. Then \<^verbatim>\<open>merge\<close> and \<^verbatim>\<open>mergeR\<close> return \<^verbatim>\<open>nil\<close>, the state of
  the callback is the one its call on \<open>c\<close> has left, and the callback has been called on
  the files \<open>pre @ [c]\<close> in this order and on no file of \<open>post\<close>.
\<close>

theorem merge_stops_on_Skip:
  assumes "fnd p paths = pre @ c # post"
    and "\<forall>i<length pre. fst (f (pre ! i) (foldl (\<lambda>t q. snd (f q t)) st (take i pre))) = None"
    and "f c (foldl (\<lambda>t q. snd (f q t)) st pre) = (Some e, st')"
    and "ptr e = ptr Skip"
  shows "merge fnd p (traced f) paths (st, []) = (None, (st', pre @ [c])) \<and>
         mergeR fnd p (traced f) paths (st, []) = (None, (st', pre @ [c]))"
  using traced_merge_loop_stop [OF assms(2,3), of post "[]"] assms(1,4)
  by (simp add: merge_def mergeR_def merge_return_def)

theorem merge_stops_on_Skip_witness:
  "(\<lambda>p paths. paths) ''x'' [''/a/x'', ''/b/x'', ''/c/x''] = [''/a/x''] @ ''/b/x'' # [''/c/x''] \<and>
   (\<lambda>q n. (if q = ''/b/x'' then Some Skip else None, Suc n)) ''/a/x'' (0::nat) = (None, 1) \<and>
   (\<lambda>q n. (if q = ''/b/x'' then Some Skip else None, Suc n)) ''/b/x'' (1::nat) = (Some Skip, 2) \<and>
   merge (\<lambda>p paths. paths) ''x'' (traced (\<lambda>q n. (if q = ''/b/x'' then Some Skip else None, Suc n)))
     [''/a/x'', ''/b/x'', ''/c/x''] (0::nat, []) = (None, (2, [''/a/x'', ''/b/x''])) \<and>
   mergeR (\<lambda>p paths. paths) ''x'' (traced (\<lambda>q n. (if q = ''/b/x'' then Some Skip else None, Suc n)))
     [''/a/x'', ''/b/x'', ''/c/x''] (0::nat, []) = (None, (2, [''/a/x'', ''/b/x'']))"
  using merge_stops_on_Skip [of "\<lambda>p paths. paths" "''x''" "[''/a/x'', ''/b/x'', ''/c/x'']"
      "[''/a/x'']" "''/b/x''" "[''/c/x'']"
      "\<lambda>q n. (if q = ''/b/x'' then Some Skip else None, Suc n)" "0::nat" Skip 2]
  by simp

text \<open>
  Claim C7. With the files found \<open>pre @ c # post\<close> and the callback returning \<^verbatim>\<open>nil\<close> on
  every file of \<open>pre\<close>, an error \<open>e\<close> other than \<^verbatim>\<open>Skip\<close> that the callback returns on \<open>c\<close>
  ends the merge at once: \<^verbatim>\<open>merge\<close> and \<^verbatim>\<open>mergeR\<close> return this very error \<open>e\<close>, and the
  callback has been called on \<open>pre @ [c]\<close> and on no file of \<open>post\<close>. When the callback
  returns \<^verbatim>\<open>nil\<close> on every file found, it has been called on all of them in order and the
  merge returns \<^verbatim>\<open>nil\<close>.
\<close>

theorem merge_propagates_error:
  "(fnd p paths = pre @ c # post \<and>
    (\<forall>i<length pre. fst (f (pre ! i) (foldl (\<lambda>t q. snd (f q t)) st (take i pre))) = None) \<and>
    f c (foldl (\<lambda>t q. snd (f q t)) st pre) = (Some e, st') \<and> ptr e \<noteq> ptr Skip
    \<longrightarrow> merge fnd p (traced f) paths (st, []) = (Some e, (st', pre @ [c])) \<and>
        mergeR fnd p (traced f) paths (st, []) = (Some e, (st', pre @ [c]))) \<and>
   ((\<forall>i<length (fnd p paths).
       fst (f (fnd p paths ! i) (foldl (\<lambda>t q. snd (f q t)) st (take i (fnd p paths)))) = None)
    \<longrightarrow> merge fnd p (traced f) paths (st, []) =
          (None, (foldl (\<lambda>t q. snd (f q t)) st (fnd p paths), fnd p paths)) \<and>
        mergeR fnd p (traced f) paths (st, []) =
          (None, (foldl (\<lambda>t q. snd (f q t)) st (fnd p paths), fnd p paths)))"
proof (intro conjI impI)
  assume a: "fnd p paths = pre @ c # post \<and>
    (\<forall>i<length pre. fst (f (pre ! i) (foldl (\<lambda>t q. snd (f q t)) st (take i pre))) = None) \<and>
    f c (foldl (\<lambda>t q. snd (f q t)) st pre) = (Some e, st') \<and> ptr e \<noteq> ptr Skip"
  then have "merge_loop (traced f) (fnd p paths) (st, []) = (Some e, (st', pre @ [c]))"
    using traced_merge_loop_stop [of pre f st c e st' post "[]"] by simp
  with a show "merge fnd p (traced f) paths (st, []) = (Some e, (st', pre @ [c]))"
    and "mergeR fnd p (traced f) paths (st, []) = (Some e, (st', pre @ [c]))"
    by (simp_all add: merge_def mergeR_def merge_return_def)
next
  assume "\<forall>i<length (fnd p paths).
       fst (f (fnd p paths ! i) (foldl (\<lambda>t q. snd (f q t)) st (take i (fnd p paths)))) = None"
  then have "merge_loop (traced f) (fnd p paths) (st, []) =
      (None, (foldl (\<lambda>t q. snd (f q t)) st (fnd p paths), fnd p paths))"
    using traced_merge_loop_all [of "fnd p paths" f st "[]"] by simp
  then show "merge fnd p (traced f) paths (st, []) =
          (None, (foldl (\<lambda>t q. snd (f q t)) st (fnd p paths), fnd p paths))"
    and "mergeR fnd p (traced f) paths (st, []) =
          (None, (foldl (\<lambda>t q. snd (f q t)) st (fnd p paths), fnd p paths))"
    by (simp_all add: merge_def mergeR_def merge_return_def)
qed

theorem merge_propagates_error_witness:
  "merge (\<lambda>p paths. paths) ''x''
     (traced (\<lambda>q n. (if q = ''/b/x'' then Some (ErrorString 5 ''unreadable'') else None, Suc n)))
     [''/a/x'', ''/b/x'', ''/c/x''] (0::nat, []) =
     (Some (ErrorString 5 ''unreadable''), (2, [''/a/x'', ''/b/x''])) \<and>
   merge (\<lambda>p paths. paths) ''x'' (traced (\<lambda>q n. (None, Suc n)))
     [''/a/x'', ''/b/x'', ''/c/x''] (0::nat, []) = (None, (3, [''/a/x'', ''/b/x'', ''/c/x'']))"
proof -
  have 1: "merge (\<lambda>p paths. paths) ''x''
     (traced (\<lambda>q n. (if q = ''/b/x'' then Some (ErrorString 5 ''unreadable'') else None, Suc n)))
     [''/a/x'', ''/b/x'', ''/c/x''] (0::nat, []) =
     (Some (ErrorString 5 ''unreadable''), (2, [''/a/x'', ''/b/x'']))"
    using merge_propagates_error [of "\<lambda>p paths. paths" "''x''" "[''/a/x'', ''/b/x'', ''/c/x'']"
      "[''/a/x'']" "''/b/x''" "[''/c/x'']"
      "\<lambda>q n. (if q = ''/b/x'' then Some (ErrorString 5 ''unreadable'') else None, Suc n)"
      "0::nat" "ErrorString 5 ''unreadable''" 2]
    by (simp add: Skip_def)
  have 2: "merge (\<lambda>p paths. paths) ''x'' (traced (\<lambda>q n. (None, Suc n)))
     [''/a/x'', ''/b/x'', ''/c/x''] (0::nat, []) = (None, (3, [''/a/x'', ''/b/x'', ''/c/x'']))"
    using merge_propagates_error [of "\<lambda>p paths. paths" "''x''" "[''/a/x'', ''/b/x'', ''/c/x'']"
      "[]" "''/a/x''" "[''/b/x'', ''/c/x'']" "\<lambda>q n. (None, Suc n)" "0::nat"]
    by simp
  from 1 2 show ?thesis by simp
qed

text \<open>
  Claim C10. The stop outcome is recognised by the identity of the error, not by its text:
  when the first error the callback returns is \<open>e\<close>, the merge returns \<^verbatim>\<open>nil\<close> if \<open>e\<close> is
  the object \<^verbatim>\<open>Skip\<close> and \<open>e\<close> itself otherwise, also when \<open>e\<close> is another object that
  carries the text of \<^verbatim>\<open>Skip\<close>. The comparison comes behind the loop, so nothing changes
  when \<open>c\<close> is the last file (\<open>post = []\<close>).
\<close>

theorem merge_compares_with_Skip_by_identity:
  assumes "fnd p paths = pre @ c # post"
    and "\<forall>i<length pre. fst (f (pre ! i) (foldl (\<lambda>t q. snd (f q t)) st (take i pre))) = None"
    and "f c (foldl (\<lambda>t q. snd (f q t)) st pre) = (Some e, st')"
  shows "fst (merge fnd p f paths st) = (if ptr e = ptr Skip then None else Some e) \<and>
         fst (mergeR fnd p f paths st) = (if ptr e = ptr Skip then None else Some e) \<and>
         (msg e = msg Skip \<and> ptr e \<noteq> ptr Skip \<longrightarrow>
            fst (merge fnd p f paths st) = Some e \<and> fst (mergeR fnd p f paths st) = Some e)"
  using merge_loop_stop [OF assms(2,3), of post] assms(1)
  by (simp add: merge_def mergeR_def merge_return_def)

theorem merge_compares_with_Skip_by_identity_witness:
  "fst (merge (\<lambda>p paths. paths) ''x''
     (\<lambda>q n. (if q = ''/b/x'' then Some (ErrorString 7 (msg Skip)) else None, Suc n))
     [''/a/x'', ''/b/x''] (0::nat)) = Some (ErrorString 7 ''skip the rest of the files to be merged'') \<and>
   fst (merge (\<lambda>p paths. paths) ''x''
     (\<lambda>q n. (if q = ''/b/x'' then Some Skip else None, Suc n))
     [''/a/x'', ''/b/x''] (0::nat)) = None"
proof -
  have 1: "fst (merge (\<lambda>p paths. paths) ''x''
     (\<lambda>q n. (if q = ''/b/x'' then Some (ErrorString 7 (msg Skip)) else None, Suc n))
     [''/a/x'', ''/b/x''] (0::nat)) = Some (ErrorString 7 ''skip the rest of the files to be merged'')"
    using merge_compares_with_Skip_by_identity [of "\<lambda>p paths. paths" "''x''" "[''/a/x'', ''/b/x'']"
      "[''/a/x'']" "''/b/x''" "[]"
      "\<lambda>q n. (if q = ''/b/x'' then Some (ErrorString 7 (msg Skip)) else None, Suc n)"
      "0::nat" "ErrorString 7 (msg Skip)" 2]
    by (simp add: Skip_def)
  have 2: "fst (merge (\<lambda>p paths. paths) ''x''
     (\<lambda>q n. (if q = ''/b/x'' then Some Skip else None, Suc n))
     [''/a/x'', ''/b/x''] (0::nat)) = None"
    using merge_compares_with_Skip_by_identity [of "\<lambda>p paths. paths" "''x''" "[''/a/x'', ''/b/x'']"
      "[''/a/x'']" "''/b/x''" "[]"
      "\<lambda>q n. (if q = ''/b/x'' then Some Skip else None, Suc n)" "0::nat" Skip 2]
    by simp
  from 1 2 show ?thesis by simp
qed

section \<open>The order of the backward merge\<close>

lemma rev_probe: "rev (probe fs p r) = probe fs p r"
  by (simp add: probe_def)

lemma findFilesReverse_rev: "findFilesReverse fs p paths = rev (findFiles fs p paths)"
proof (cases paths)
  case Nil
  then show ?thesis by simp
next
  case (Cons hm dirs)
  have "rev (concat (map (probe fs p) dirs)) = concat (map (probe fs p) (rev dirs))"
    by (simp add: rev_concat rev_map rev_probe cong: map_cong)
  with Cons show ?thesis by (simp add: rev_probe)
qed

lemma traced_never_failing:
  assumes "\<forall>q t. fst (f q t) = None"
  shows "snd (snd (merge_loop (traced f) cs (st, tr))) = tr @ cs"
  using traced_merge_loop_all [of cs f st tr] assms by simp

lemma mergeR_visits_reverse_of_merge:
  assumes "\<forall>q t. fst (f q t) = None"
  shows "snd (snd (mergeR (findFilesReverse fs) p (traced f) paths (st, []))) =
         rev (snd (snd (merge (findFiles fs) p (traced f) paths (st, []))))"
  using traced_never_failing [OF assms, of _ st "[]"]
  by (simp add: merge_def mergeR_def split_beta findFilesReverse_rev)

text \<open>
  Claim C5. With the home directory \<open>H\<close> and the directory list \<open>[A, B]\<close>, and a callback
  that never returns an error, the backward merge calls the callback on the existing
  files among \<open>B/p\<close>, \<open>A/p\<close>, \<open>H/p\<close> in this order (\<open>H\<close> left out when it is empty), which
  is the order of the forward merge reversed.
\<close>

theorem mergeR_visits_B_A_H:
  assumes "\<forall>q t. fst (f q t) = None"
  shows "snd (snd (mergeR (findFilesReverse fs) p (traced f) [H, A, B] (st, []))) =
           filter fs (map (\<lambda>r. r @ ''/'' @ p) ([B, A] @ (if H = [] then [] else [H]))) \<and>
         snd (snd (mergeR (findFilesReverse fs) p (traced f) [H, A, B] (st, []))) =
           rev (snd (snd (merge (findFiles fs) p (traced f) [H, A, B] (st, []))))"
  using traced_never_failing [OF assms, of _ st "[]"]
  by (simp add: merge_def mergeR_def split_beta probe_def)

theorem mergeR_visits_B_A_H_witness:
  "snd (snd (mergeR (findFilesReverse (\<lambda>q. True)) ''x'' (traced (\<lambda>q n. (None, Suc n)))
      [''/h'', ''/a'', ''/b''] (0::nat, []))) = [''/b/x'', ''/a/x'', ''/h/x''] \<and>
   snd (snd (merge (findFiles (\<lambda>q. True)) ''x'' (traced (\<lambda>q n. (None, Suc n)))
      [''/h'', ''/a'', ''/b''] (0::nat, []))) = [''/h/x'', ''/a/x'', ''/b/x'']"
proof -
  let ?R = "snd (snd (mergeR (findFilesReverse (\<lambda>q. True)) ''x'' (traced (\<lambda>q n. (None, Suc n)))
      [''/h'', ''/a'', ''/b''] (0::nat, [])))"
  let ?M = "snd (snd (merge (findFiles (\<lambda>q. True)) ''x'' (traced (\<lambda>q n. (None, Suc n)))
      [''/h'', ''/a'', ''/b''] (0::nat, [])))"
  have h: "\<forall>q t. fst ((\<lambda>(q::string) (n::nat). (None::error option, Suc n)) q t) = None"
    by simp
  note th = mergeR_visits_B_A_H [OF h, of "\<lambda>q. True" "''x''" "''/h''" "''/a''" "''/b''" "0::nat"]
  from th have a: "?R = [''/b/x'', ''/a/x'', ''/h/x'']" by simp
  from th have b: "?R = rev ?M" by blast
  from a b have "rev ?M = [''/b/x'', ''/a/x'', ''/h/x'']" by (simp only:)
  then have "?M = rev [''/b/x'', ''/a/x'', ''/h/x'']" by (rule rev_swap [THEN iffD1])
  with a show ?thesis by simp
qed

section \<open>Finding the first file\<close>

text \<open>
  Claim C4, evaluated on the code. Let \<^verbatim>\<open>XDG_CONFIG_HOME\<close> be \<^verbatim>\<open>/home/u/.config\<close>, so that
  \<^verbatim>\<open>ConfigHome\<close> is this directory, and let the file \<^verbatim>\<open>/home/u/.config/app.conf\<close> exist.
  The first candidate root joined with the suffix \<^verbatim>\<open>app.conf\<close> is this existing file,
  yet \<^verbatim>\<open>FindConfigFile\<close> returns the empty path and \<^verbatim>\<open>FindConfigFiles\<close> no path at all:
  their bodies look at neither the directories nor the file system.
\<close>

theorem FindConfigFile_misses_existing_file:
  "ConfigHome (init [''XDG_CONFIG_HOME'' \<mapsto> ''/home/u/.config''] state0) = ''/home/u/.config'' \<and>
   ConfigHome (init [''XDG_CONFIG_HOME'' \<mapsto> ''/home/u/.config''] state0) @ ''/'' @ ''app.conf'' =
     ''/home/u/.config/app.conf'' \<and>
   FindConfigFiles ''app.conf'' = [] \<and>
   FindConfigFile ''app.conf'' = []"
  by (simp add: init_fields xdgPath_def Getenv_def IsAbs_def Let_def FindConfigFiles_def
      FindConfigFile_def)

end
